theory Spec2Isabelle
  imports Complex_Main "HOL-Library.Word"
begin

section \<open>Numbers, vectors and matrices\<close>

text \<open>
  The viewer computes in single-precision floats (binary32). Two embeddings are used.

  Comparison, minimum, maximum and clamping are exact on floats, so the bounding box is
  computed on \<^typ>\<open>real\<close> as it is in the program. The Controller's state is kept in
  reals as well: the clamp of the altitude holds whatever the rounding of the sum before
  it, and the theorems about the formulas of one frame hold of the program up to
  rounding; they assume what keeps the divisors nonzero (a positive viewport height, a
  positive radius, a camera off the poles).

  Where rounding, underflow, overflow or a division by zero decide what the program does
  (the model matrix of the Framer and the radius under scrolling), the arithmetic is
  binary32 itself: every operation rounds its exact result to nearest, ties to even, and
  yields an infinity or NaN as IEEE 754 prescribes.

  \<open>glm::vec3\<close>, \<open>glm::vec4\<close> and \<open>glm::mat4\<close> (a matrix is four columns, \<open>m[i]\<close> is
  column \<open>i\<close>) follow the GLM library, whose functions are written out below as GLM
  defines them.
\<close>

datatype vec3 = Vec3 (vx: real) (vy: real) (vz: real)

datatype vec4 = Vec4 (wx: real) (wy: real) (wz: real) (ww: real)

datatype mat4 = Mat4 (col0: vec4) (col1: vec4) (col2: vec4) (col3: vec4)

text \<open>\<open>glm::min(x, y)\<close> is \<open>(y < x) ? y : x\<close> and \<open>glm::max(x, y)\<close> is
  \<open>(x < y) ? y : x\<close>, componentwise on vectors.\<close>

definition fmin :: "real \<Rightarrow> real \<Rightarrow> real" where
  "fmin a b = (if b < a then b else a)"

definition fmax :: "real \<Rightarrow> real \<Rightarrow> real" where
  "fmax a b = (if a < b then b else a)"

definition min3 :: "vec3 \<Rightarrow> vec3 \<Rightarrow> vec3" where
  "min3 a b = Vec3 (fmin (vx a) (vx b)) (fmin (vy a) (vy b)) (fmin (vz a) (vz b))"

definition max3 :: "vec3 \<Rightarrow> vec3 \<Rightarrow> vec3" where
  "max3 a b = Vec3 (fmax (vx a) (vx b)) (fmax (vy a) (vy b)) (fmax (vz a) (vz b))"

definition add3 :: "vec3 \<Rightarrow> vec3 \<Rightarrow> vec3" where
  "add3 a b = Vec3 (vx a + vx b) (vy a + vy b) (vz a + vz b)"

definition neg3 :: "vec3 \<Rightarrow> vec3" where
  "neg3 a = Vec3 (- vx a) (- vy a) (- vz a)"

definition smul3 :: "real \<Rightarrow> vec3 \<Rightarrow> vec3" where
  "smul3 k a = Vec3 (k * vx a) (k * vy a) (k * vz a)"

definition dot3 :: "vec3 \<Rightarrow> vec3 \<Rightarrow> real" where
  "dot3 a b = vx a * vx b + vy a * vy b + vz a * vz b"

definition cross :: "vec3 \<Rightarrow> vec3 \<Rightarrow> vec3" where
  "cross a b = Vec3 (vy a * vz b - vy b * vz a)
                    (vz a * vx b - vz b * vx a)
                    (vx a * vy b - vx b * vy a)"

definition length3 :: "vec3 \<Rightarrow> real" where
  "length3 a = sqrt (dot3 a a)"

text \<open>\<open>glm::normalize(v)\<close> is \<open>v * inversesqrt(dot(v, v))\<close>.\<close>

definition normalize3 :: "vec3 \<Rightarrow> vec3" where
  "normalize3 a = smul3 (1 / sqrt (dot3 a a)) a"

definition add4 :: "vec4 \<Rightarrow> vec4 \<Rightarrow> vec4" where
  "add4 a b = Vec4 (wx a + wx b) (wy a + wy b) (wz a + wz b) (ww a + ww b)"

definition smul4 :: "vec4 \<Rightarrow> real \<Rightarrow> vec4" where
  "smul4 a k = Vec4 (wx a * k) (wy a * k) (wz a * k) (ww a * k)"

text \<open>Matrix times column vector, \<open>m * v\<close>, and the vertex shader's \<open>MVP * vec4(vPos, 1.0)\<close>
  for a single matrix.\<close>

definition mul_mv :: "mat4 \<Rightarrow> vec4 \<Rightarrow> vec4" where
  "mul_mv m v =
     add4 (add4 (add4 (smul4 (col0 m) (wx v)) (smul4 (col1 m) (wy v))) (smul4 (col2 m) (wz v)))
          (smul4 (col3 m) (ww v))"

definition transform_point :: "mat4 \<Rightarrow> vec3 \<Rightarrow> vec4" where
  "transform_point m p = mul_mv m (Vec4 (vx p) (vy p) (vz p) 1)"

section \<open>Binary32 arithmetic\<close>

text \<open>
  A \<open>float\<close>: a real that binary32 represents, an infinity, or NaN. The sign of a zero
  is not kept; it decides only the sign of a quotient by zero, and the zero divisors met
  below are differences \<open>x - x\<close> and their halves, which are \<open>+0\<close>.
\<close>

datatype f32 = Fin real | PInf | NInf | NaN

text \<open>\<open>2\<^sup>e\<close> for an integer exponent.\<close>

definition pow2 :: "int \<Rightarrow> real" where
  "pow2 e = (if 0 \<le> e then 2 ^ nat e else 1 / 2 ^ nat (- e))"

text \<open>The least exponent \<open>e\<close> from \<open>e\<^sub>0\<close> upwards with \<open>a < 2\<^bsup>e+1\<^esup>\<close>, searched for \<open>n\<close>
  steps. Binary32 has the exponents \<open>-126 \<dots> 127\<close>; below \<open>2\<^bsup>-126\<^esup>\<close> the numbers are
  subnormal and keep the exponent \<open>-126\<close>.\<close>

fun binade :: "nat \<Rightarrow> int \<Rightarrow> real \<Rightarrow> int" where
  "binade 0 e a = e"
| "binade (Suc n) e a = (if a < pow2 (e + 1) then e else binade n (e + 1) a)"

definition expo32 :: "real \<Rightarrow> int" where
  "expo32 x = binade 254 (- 126) \<bar>x\<bar>"

text \<open>Rounding to the nearest integer, ties to the even one.\<close>

definition rne :: "real \<Rightarrow> int" where
  "rne z =
     (if z - of_int \<lfloor>z\<rfloor> < 1 / 2 then \<lfloor>z\<rfloor>
      else if 1 / 2 < z - of_int \<lfloor>z\<rfloor> then \<lfloor>z\<rfloor> + 1
      else if even \<lfloor>z\<rfloor> then \<lfloor>z\<rfloor> else \<lfloor>z\<rfloor> + 1)"

text \<open>Rounding of an exact result to binary32, to nearest with ties to even: a multiple
  of \<open>2\<^bsup>e-23\<^esup>\<close> for the exponent \<open>e\<close> of the argument (24 significant bits), and an
  infinity when the rounded value reaches \<open>2\<^bsup>128\<^esup>\<close>.\<close>

definition round32 :: "real \<Rightarrow> f32" where
  "round32 x =
     (if x = 0 then Fin 0
      else
        let q = pow2 (expo32 x - 23);
            y = of_int (rne (x / q)) * q
        in if 2 ^ 128 \<le> y then PInf else if y \<le> - (2 ^ 128) then NInf else Fin y)"


text \<open>The operations \<open>-x\<close>, \<open>x + y\<close>, \<open>x - y\<close>, \<open>x * y\<close>, \<open>x / y\<close> of IEEE 754.\<close>

fun fneg :: "f32 \<Rightarrow> f32" where
  "fneg (Fin a) = Fin (- a)"
| "fneg PInf = NInf"
| "fneg NInf = PInf"
| "fneg NaN = NaN"

fun fadd :: "f32 \<Rightarrow> f32 \<Rightarrow> f32" where
  "fadd (Fin a) (Fin b) = round32 (a + b)"
| "fadd NaN y = NaN"
| "fadd x NaN = NaN"
| "fadd PInf NInf = NaN"
| "fadd NInf PInf = NaN"
| "fadd PInf y = PInf"
| "fadd x PInf = PInf"
| "fadd NInf y = NInf"
| "fadd x NInf = NInf"

definition fsub :: "f32 \<Rightarrow> f32 \<Rightarrow> f32" where
  "fsub x y = fadd x (fneg y)"

fun fmul :: "f32 \<Rightarrow> f32 \<Rightarrow> f32" where
  "fmul (Fin a) (Fin b) = round32 (a * b)"
| "fmul NaN y = NaN"
| "fmul x NaN = NaN"
| "fmul (Fin a) PInf = (if a = 0 then NaN else if 0 < a then PInf else NInf)"
| "fmul (Fin a) NInf = (if a = 0 then NaN else if 0 < a then NInf else PInf)"
| "fmul PInf (Fin b) = (if b = 0 then NaN else if 0 < b then PInf else NInf)"
| "fmul NInf (Fin b) = (if b = 0 then NaN else if 0 < b then NInf else PInf)"
| "fmul PInf PInf = PInf"
| "fmul NInf NInf = PInf"
| "fmul PInf NInf = NInf"
| "fmul NInf PInf = NInf"

fun fdiv :: "f32 \<Rightarrow> f32 \<Rightarrow> f32" where
  "fdiv (Fin a) (Fin b) =
     (if b = 0 then (if a = 0 then NaN else if 0 < a then PInf else NInf)
      else round32 (a / b))"
| "fdiv NaN y = NaN"
| "fdiv x NaN = NaN"
| "fdiv (Fin a) PInf = Fin 0"
| "fdiv (Fin a) NInf = Fin 0"
| "fdiv PInf (Fin b) = (if b < 0 then NInf else PInf)"
| "fdiv NInf (Fin b) = (if b < 0 then PInf else NInf)"
| "fdiv PInf PInf = NaN"
| "fdiv PInf NInf = NaN"
| "fdiv NInf PInf = NaN"
| "fdiv NInf NInf = NaN"


text \<open>\<open>glm::vec3\<close>, \<open>glm::vec4\<close> and \<open>glm::mat4\<close> with binary32 components, and the GLM
  operations the Framer uses on them, each component computed with the operations
  above.\<close>

datatype fvec3 = FVec3 (fx: f32) (fy: f32) (fz: f32)

datatype fvec4 = FVec4 (gx: f32) (gy: f32) (gz: f32) (gw: f32)

datatype fmat4 = FMat4 (fcol0: fvec4) (fcol1: fvec4) (fcol2: fvec4) (fcol3: fvec4)

definition to_fvec3 :: "vec3 \<Rightarrow> fvec3" where
  "to_fvec3 v = FVec3 (Fin (vx v)) (Fin (vy v)) (Fin (vz v))"

text \<open>\<open>a + b\<close> and \<open>a - b\<close> on \<open>vec3\<close>; \<open>k * v\<close> and \<open>k / v\<close> for a scalar \<open>k\<close>.\<close>

definition fadd3 :: "fvec3 \<Rightarrow> fvec3 \<Rightarrow> fvec3" where
  "fadd3 a b = FVec3 (fadd (fx a) (fx b)) (fadd (fy a) (fy b)) (fadd (fz a) (fz b))"

definition fsub3 :: "fvec3 \<Rightarrow> fvec3 \<Rightarrow> fvec3" where
  "fsub3 a b = FVec3 (fsub (fx a) (fx b)) (fsub (fy a) (fy b)) (fsub (fz a) (fz b))"

definition fscale3 :: "f32 \<Rightarrow> fvec3 \<Rightarrow> fvec3" where
  "fscale3 k v = FVec3 (fmul k (fx v)) (fmul k (fy v)) (fmul k (fz v))"

definition fquot3 :: "f32 \<Rightarrow> fvec3 \<Rightarrow> fvec3" where
  "fquot3 k v = FVec3 (fdiv k (fx v)) (fdiv k (fy v)) (fdiv k (fz v))"

text \<open>\<open>v * k\<close> and \<open>a + b\<close> on \<open>vec4\<close>.\<close>

definition fsmul4 :: "fvec4 \<Rightarrow> f32 \<Rightarrow> fvec4" where
  "fsmul4 v k = FVec4 (fmul (gx v) k) (fmul (gy v) k) (fmul (gz v) k) (fmul (gw v) k)"

definition fadd4 :: "fvec4 \<Rightarrow> fvec4 \<Rightarrow> fvec4" where
  "fadd4 a b =
     FVec4 (fadd (gx a) (gx b)) (fadd (gy a) (gy b)) (fadd (gz a) (gz b)) (fadd (gw a) (gw b))"

text \<open>\<open>glm::mat4{1.0f}\<close>: the identity.\<close>

definition mat4_identity :: fmat4 where
  "mat4_identity =
     FMat4 (FVec4 (Fin 1) (Fin 0) (Fin 0) (Fin 0)) (FVec4 (Fin 0) (Fin 1) (Fin 0) (Fin 0))
           (FVec4 (Fin 0) (Fin 0) (Fin 1) (Fin 0)) (FVec4 (Fin 0) (Fin 0) (Fin 0) (Fin 1))"

text \<open>\<open>glm::scale(m, v)\<close>:
  \<open>Result[0] = m[0] * v[0]; Result[1] = m[1] * v[1]; Result[2] = m[2] * v[2]; Result[3] = m[3]\<close>.\<close>

definition glm_scale :: "fmat4 \<Rightarrow> fvec3 \<Rightarrow> fmat4" where
  "glm_scale m v =
     FMat4 (fsmul4 (fcol0 m) (fx v)) (fsmul4 (fcol1 m) (fy v)) (fsmul4 (fcol2 m) (fz v))
           (fcol3 m)"

text \<open>\<open>glm::translate(m, v)\<close>:
  \<open>Result = m; Result[3] = m[0] * v[0] + m[1] * v[1] + m[2] * v[2] + m[3]\<close>.\<close>

definition glm_translate :: "fmat4 \<Rightarrow> fvec3 \<Rightarrow> fmat4" where
  "glm_translate m v =
     FMat4 (fcol0 m) (fcol1 m) (fcol2 m)
           (fadd4 (fadd4 (fadd4 (fsmul4 (fcol0 m) (fx v)) (fsmul4 (fcol1 m) (fy v)))
                         (fsmul4 (fcol2 m) (fz v)))
                  (fcol3 m))"

text \<open>The real matrix a binary32 matrix stands for when all its entries are finite.\<close>

definition finite_vec4 :: "fvec4 \<Rightarrow> vec4 option" where
  "finite_vec4 v =
     (case (gx v, gy v, gz v, gw v) of
        (Fin a, Fin b, Fin c, Fin d) \<Rightarrow> Some (Vec4 a b c d)
      | _ \<Rightarrow> None)"

definition finite_mat4 :: "fmat4 \<Rightarrow> mat4 option" where
  "finite_mat4 m =
     (case (finite_vec4 (fcol0 m), finite_vec4 (fcol1 m), finite_vec4 (fcol2 m),
            finite_vec4 (fcol3 m)) of
        (Some a, Some b, Some c, Some d) \<Rightarrow> Some (Mat4 a b c d)
      | _ \<Rightarrow> None)"

section \<open>Framer: bounding box and model matrix (\<open>main\<close>, lines 131-151)\<close>

datatype error =
    Out_of_range            \<comment> \<open>\<open>vertices[0]\<close> read on an empty vector\<close>
  | Unknown_command string  \<comment> \<open>the parser's \<open>return -1\<close>, with the command it printed\<close>

text \<open>
  \<open>for (size_t i = 2; i < vertices.size(); i += 2)\<close> with the body
  \<open>aabb_min = min(aabb_min, vertices[i]); aabb_max = max(aabb_max, vertices[i]);\<close>
\<close>

function aabb_loop :: "vec3 list \<Rightarrow> nat \<Rightarrow> vec3 \<times> vec3 \<Rightarrow> vec3 \<times> vec3" where
  "aabb_loop vertices i (aabb_min, aabb_max) =
     (if i < length vertices
      then aabb_loop vertices (i + 2)
             (min3 aabb_min (vertices ! i), max3 aabb_max (vertices ! i))
      else (aabb_min, aabb_max))"
  by pat_completeness auto
termination
  by (relation "measure (\<lambda>(vertices, i, _). length vertices - i)") auto

text \<open>\<open>glm::vec3 aabb_min{vertices[0]}; glm::vec3 aabb_max{vertices[0]};\<close> and the loop.
  Element 0 is read before any test of the size.\<close>

definition compute_aabb :: "vec3 list \<Rightarrow> error + vec3 \<times> vec3" where
  "compute_aabb vertices =
     (case vertices of
        [] \<Rightarrow> Inl Out_of_range
      | v0 # _ \<Rightarrow> Inr (aabb_loop vertices 2 (v0, v0)))"

text \<open>
  \<open>model = glm::scale(model, 1.0f / (0.5f * (aabb_max - aabb_min)));\<close>
  \<open>model = glm::translate(model, -0.5f * (aabb_max + aabb_min));\<close>
  starting from \<open>glm::mat4 model{1.0f}\<close>, every operation in binary32. There is no test of
  the extent before the division.
\<close>

definition model_matrix :: "vec3 \<Rightarrow> vec3 \<Rightarrow> fmat4" where
  "model_matrix aabb_min aabb_max =
     glm_translate
       (glm_scale mat4_identity
          (fquot3 (Fin 1) (fscale3 (Fin 0.5) (fsub3 (to_fvec3 aabb_max) (to_fvec3 aabb_min)))))
       (fscale3 (Fin (- 0.5)) (fadd3 (to_fvec3 aabb_max) (to_fvec3 aabb_min)))"

text \<open>
  The construction on one axis rounds nowhere: the difference, its half, the reciprocal,
  the sum, its negated half and the product of the last two are binary32 numbers as they
  stand.
\<close>

definition representable :: "real \<Rightarrow> bool" where
  "representable x \<longleftrightarrow> round32 x = Fin x"

definition exact_axis :: "real \<Rightarrow> real \<Rightarrow> bool" where
  "exact_axis lo hi \<longleftrightarrow>
     representable (hi - lo) \<and> representable (0.5 * (hi - lo)) \<and>
     representable (1 / (0.5 * (hi - lo))) \<and>
     representable (hi + lo) \<and> representable (- 0.5 * (hi + lo)) \<and>
     representable (1 / (0.5 * (hi - lo)) * (- 0.5 * (hi + lo)))"

text \<open>The bounding box the specification asks for, in which every vertex is scanned;
  it is what the loop above is compared with.\<close>

fun bounds_of_all :: "vec3 \<times> vec3 \<Rightarrow> vec3 list \<Rightarrow> vec3 \<times> vec3" where
  "bounds_of_all (lo, hi) [] = (lo, hi)"
| "bounds_of_all (lo, hi) (v # vs) = bounds_of_all (min3 lo v, max3 hi v) vs"

definition spec_aabb :: "vec3 list \<Rightarrow> (vec3 \<times> vec3) option" where
  "spec_aabb vs = (case vs of [] \<Rightarrow> None | v # rest \<Rightarrow> Some (bounds_of_all (v, v) rest))"

text \<open>A point of the box, and a homogeneous point of the cube \<open>[-1, 1]\<^sup>3\<close>.\<close>

definition inside_box :: "vec3 \<Rightarrow> vec3 \<Rightarrow> vec3 \<Rightarrow> bool" where
  "inside_box lo hi p \<longleftrightarrow>
     vx lo \<le> vx p \<and> vx p \<le> vx hi \<and> vy lo \<le> vy p \<and> vy p \<le> vy hi \<and>
     vz lo \<le> vz p \<and> vz p \<le> vz hi"

definition inside_cube :: "vec4 \<Rightarrow> bool" where
  "inside_cube q \<longleftrightarrow>
     - 1 \<le> wx q \<and> wx q \<le> 1 \<and> - 1 \<le> wy q \<and> wy q \<le> 1 \<and> - 1 \<le> wz q \<and> wz q \<le> 1 \<and>
     ww q = 1"

section \<open>Parser (\<open>main\<close>, lines 106-129)\<close>

text \<open>
  The lines \<open>getline(file, line)\<close> delivers until it fails: the pieces between newline
  characters; after the last newline nothing is delivered when nothing follows it.
\<close>

fun getlines :: "string \<Rightarrow> string \<Rightarrow> string list" where
  "getlines acc [] = (if acc = [] then [] else [rev acc])"
| "getlines acc (c # cs) =
     (if c = CHR 0x0A then rev acc # getlines [] cs else getlines (c # acc) cs)"

text \<open>The whitespace that formatted extraction skips (\<open>isspace\<close> in the "C" locale).\<close>

definition isspace :: "char \<Rightarrow> bool" where
  "isspace c \<longleftrightarrow>
     c = CHR '' '' \<or> c = CHR 0x09 \<or> c = CHR 0x0A \<or> c = CHR 0x0B \<or> c = CHR 0x0C \<or> c = CHR 0x0D"

text \<open>A \<open>stringstream\<close> read from the front: the characters left and its \<open>failbit\<close>.\<close>

record istream =
  buf :: string
  failbit :: bool

text \<open>\<open>string command; stream >> command;\<close> on a fresh stream over a line: leading
  whitespace is skipped and the run of non-whitespace characters is the command; when
  there is none the extraction fails and \<open>command\<close> stays empty.\<close>

definition extract_string :: "string \<Rightarrow> istream \<times> string" where
  "extract_string line =
     (let b = dropWhile isspace line;
          command = takeWhile (\<lambda>c. \<not> isspace c) b
      in (\<lparr>buf = dropWhile (\<lambda>c. \<not> isspace c) b, failbit = (command = [])\<rparr>, command))"

text \<open>
  \<open>stream >> x\<close> for a \<open>float\<close> and for a \<open>uint32_t\<close> belongs to the C++ standard
  library. The parser takes both as parameters: an extractor maps the stream and the old
  value of the variable to the new stream and the new value. The parser never looks at
  the stream's state after an extraction.
\<close>

type_synonym 'a extractor = "istream \<Rightarrow> 'a \<Rightarrow> istream \<times> 'a"

type_synonym edge = "32 word \<times> 32 word"

text \<open>\<open>glm::vec3 v; stream >> v.x; stream >> v.y; stream >> v.z;\<close> where \<open>v\<close> starts
  with the indeterminate value \<open>v_init\<close>.\<close>

definition read_vertex :: "real extractor \<Rightarrow> vec3 \<Rightarrow> istream \<Rightarrow> vec3" where
  "read_vertex get_float v_init stream =
     (let (s1, x) = get_float stream (vx v_init);
          (s2, y) = get_float s1 (vy v_init);
          (s3, z) = get_float s2 (vz v_init)
      in Vec3 x y z)"

text \<open>\<open>pair<uint32_t, uint32_t> e; stream >> e.first; stream >> e.second;\<close> where the
  pair is value-initialised to \<open>(0, 0)\<close>.\<close>

definition read_edge :: "32 word extractor \<Rightarrow> istream \<Rightarrow> edge" where
  "read_edge get_uint stream =
     (let (s1, a) = get_uint stream 0;
          (s2, b) = get_uint s1 0
      in (a, b))"

text \<open>The \<open>while (getline(file, line))\<close> loop over the remaining lines, with the vectors
  \<open>vertices\<close> and \<open>edges\<close> as accumulators. \<open>indet n\<close> is the indeterminate start value
  of \<open>v\<close> when \<open>n\<close> vertices have been stored.\<close>

fun parse_lines ::
  "real extractor \<Rightarrow> 32 word extractor \<Rightarrow> (nat \<Rightarrow> vec3) \<Rightarrow> string list \<Rightarrow>
   vec3 list \<times> edge list \<Rightarrow> error + vec3 list \<times> edge list" where
  "parse_lines get_float get_uint indet [] (vs, es) = Inr (vs, es)"
| "parse_lines get_float get_uint indet (line # rest) (vs, es) =
     (if line = [] then parse_lines get_float get_uint indet rest (vs, es)
      else if snd (extract_string line) = ''v'' then
        parse_lines get_float get_uint indet rest
          (vs @ [read_vertex get_float (indet (length vs)) (fst (extract_string line))], es)
      else if snd (extract_string line) = ''l'' then
        parse_lines get_float get_uint indet rest
          (vs, es @ [read_edge get_uint (fst (extract_string line))])
      else Inl (Unknown_command (snd (extract_string line))))"

text \<open>The command of a line, and the three kinds of non-empty line the loop tells apart.\<close>

definition command_of :: "string \<Rightarrow> string" where
  "command_of line = snd (extract_string line)"

definition vertex_line :: "string \<Rightarrow> bool" where
  "vertex_line line \<longleftrightarrow> line \<noteq> [] \<and> command_of line = ''v''"

definition edge_line :: "string \<Rightarrow> bool" where
  "edge_line line \<longleftrightarrow> line \<noteq> [] \<and> command_of line \<noteq> ''v'' \<and> command_of line = ''l''"

definition unknown_line :: "string \<Rightarrow> bool" where
  "unknown_line line \<longleftrightarrow> line \<noteq> [] \<and> command_of line \<noteq> ''v'' \<and> command_of line \<noteq> ''l''"

definition parse ::
  "real extractor \<Rightarrow> 32 word extractor \<Rightarrow> (nat \<Rightarrow> vec3) \<Rightarrow> string \<Rightarrow>
   error + vec3 list \<times> edge list" where
  "parse get_float get_uint indet content =
     parse_lines get_float get_uint indet (getlines [] content) ([], [])"

text \<open>
  \<open>main\<close> once the file is open. \<open>Inl (Unknown_command c)\<close>: the message naming \<open>c\<close> goes
  to \<open>cerr\<close> and \<open>main\<close> returns \<open>-1\<close> before \<open>application::run\<close>, so no window is
  opened. \<open>Inl Out_of_range\<close>: \<open>vertices[0]\<close> was read on an empty vector.
  \<open>Inr\<close>: \<open>application::run\<close> is entered with the vertices, the edges, the bounding box
  and the model matrix.
\<close>

definition main_body ::
  "real extractor \<Rightarrow> 32 word extractor \<Rightarrow> (nat \<Rightarrow> vec3) \<Rightarrow> string \<Rightarrow>
   error + vec3 list \<times> edge list \<times> (vec3 \<times> vec3) \<times> fmat4" where
  "main_body get_float get_uint indet content =
     (case parse get_float get_uint indet content of
        Inl e \<Rightarrow> Inl e
      | Inr (vs, es) \<Rightarrow>
          (case compute_aabb vs of
             Inl e \<Rightarrow> Inl e
           | Inr (aabb_min, aabb_max) \<Rightarrow>
               Inr (vs, es, (aabb_min, aabb_max), model_matrix aabb_min aabb_max)))"

subsection \<open>Extractors for plain decimal fields\<close>

text \<open>
  What \<open>operator>>\<close> does on a field written as decimal digits (for a \<open>float\<close>: an
  optional sign, digits, an optional fraction, whose value is taken as written), and on
  a field that starts with a character of another kind: since C++11 a failed extraction
  stores zero and sets \<open>failbit\<close>, and an extraction from a stream whose \<open>failbit\<close> is
  set leaves the variable alone. Signs of an unsigned field, exponents and an exhausted
  stream are not covered. The two functions instantiate the parser's parameters at
  concrete inputs of the shape covered.
\<close>

definition is_digit :: "char \<Rightarrow> bool" where
  "is_digit c \<longleftrightarrow> 48 \<le> (of_char c :: nat) \<and> (of_char c :: nat) \<le> 57"

definition decimal_value :: "string \<Rightarrow> nat" where
  "decimal_value ds = foldl (\<lambda>n c. 10 * n + (of_char c - 48)) 0 ds"

definition extract_uint_decimal :: "32 word extractor" where
  "extract_uint_decimal st old =
     (if failbit st then (st, old)
      else
        let b = dropWhile isspace (buf st);
            ds = takeWhile is_digit b
        in if ds = [] then (\<lparr>buf = b, failbit = True\<rparr>, 0)
           else if decimal_value ds > 4294967295
             then (\<lparr>buf = dropWhile is_digit b, failbit = True\<rparr>, - 1)
             else (\<lparr>buf = dropWhile is_digit b, failbit = False\<rparr>, of_nat (decimal_value ds)))"

definition strip_sign :: "string \<Rightarrow> bool \<times> string" where
  "strip_sign b =
     (case b of
        [] \<Rightarrow> (False, b)
      | c # r \<Rightarrow> if c = CHR ''-'' then (True, r) else if c = CHR ''+'' then (False, r)
                 else (False, b))"

definition fraction_digits :: "string \<Rightarrow> string \<times> string" where
  "fraction_digits b =
     (case b of
        [] \<Rightarrow> ([], b)
      | c # r \<Rightarrow> if c = CHR ''.'' then (takeWhile is_digit r, dropWhile is_digit r)
                 else ([], b))"

definition extract_float_decimal :: "real extractor" where
  "extract_float_decimal st old =
     (if failbit st then (st, old)
      else
        let signed = strip_sign (dropWhile isspace (buf st));
            ip = takeWhile is_digit (snd signed);
            frac = fraction_digits (dropWhile is_digit (snd signed));
            m = real (decimal_value (ip @ fst frac)) / 10 ^ length (fst frac)
        in if ip = [] \<and> fst frac = [] then (\<lparr>buf = snd signed, failbit = True\<rparr>, 0)
           else (\<lparr>buf = snd frac, failbit = False\<rparr>, if fst signed then - m else m))"

definition indet_zero :: "nat \<Rightarrow> vec3" where
  "indet_zero n = Vec3 0 0 0"

text \<open>The tetrahedron file of the specification's first scenario, and its contents.\<close>

definition newline :: string where
  "newline = [CHR 0x0A]"

definition tetrahedron_file :: string where
  "tetrahedron_file =
     ''v 0 0 0'' @ newline @ ''v 1 0 0'' @ newline @ ''v 0 1 0'' @ newline @
     ''v 0 0 1'' @ newline @ ''l 0 1'' @ newline @ ''l 0 2'' @ newline @
     ''l 0 3'' @ newline @ ''l 1 2'' @ newline @ ''l 2 3'' @ newline @
     ''l 3 1'' @ newline"

definition tetrahedron :: "vec3 list" where
  "tetrahedron = [Vec3 0 0 0, Vec3 1 0 0, Vec3 0 1 0, Vec3 0 0 1]"

definition tetrahedron_edges :: "edge list" where
  "tetrahedron_edges = [(0, 1), (0, 2), (0, 3), (1, 2), (2, 3), (3, 1)]"

section \<open>Camera and Controller (\<open>application::detail\<close>)\<close>

text \<open>The globals the callbacks and \<open>update\<close> read and write. \<open>up\<close> is never assigned.\<close>

definition up :: vec3 where
  "up = Vec3 0 0 1"

record app_state =
  origin :: vec3
  fov :: real
  radius :: real
  altitude :: real
  azimuth :: real
  screen_width :: int
  screen_height :: int
  projection :: mat4
  old_mouse_pos :: "real \<times> real"
  mouse_pos :: "real \<times> real"

definition zero_mat4 :: mat4 where
  "zero_mat4 = Mat4 (Vec4 0 0 0 0) (Vec4 0 0 0 0) (Vec4 0 0 0 0) (Vec4 0 0 0 0)"

definition initial_state :: app_state where
  "initial_state =
     \<lparr>origin = Vec3 0 0 0, fov = 45, radius = 5, altitude = 0, azimuth = 0,
      screen_width = 500, screen_height = 500, projection = zero_mat4,
      old_mouse_pos = (0, 0), mouse_pos = (0, 0)\<rparr>"

text \<open>\<open>glm::perspective(fovy, aspect, zNear, zFar)\<close> (right-handed, depth \<open>-1..1\<close>); GLM
  takes \<open>fovy\<close> in radians: \<open>tanHalfFovy = tan(fovy / 2)\<close>.\<close>

definition perspective :: "real \<Rightarrow> real \<Rightarrow> real \<Rightarrow> real \<Rightarrow> mat4" where
  "perspective fovy aspect zNear zFar =
     (let tanHalfFovy = tan (fovy / 2)
      in Mat4 (Vec4 (1 / (aspect * tanHalfFovy)) 0 0 0)
              (Vec4 0 (1 / tanHalfFovy) 0 0)
              (Vec4 0 0 (- (zFar + zNear) / (zFar - zNear)) (- 1))
              (Vec4 0 0 (- (2 * zFar * zNear) / (zFar - zNear)) 0))"

text \<open>\<open>resize()\<close>: \<open>w\<close> and \<open>h\<close> are what \<open>glfwGetFramebufferSize\<close> stores.\<close>

definition resize :: "int \<Rightarrow> int \<Rightarrow> app_state \<Rightarrow> app_state" where
  "resize w h s =
     s\<lparr>screen_width := w, screen_height := h,
       projection := perspective (fov s) (real_of_int w / real_of_int h) 0.1 10000\<rparr>"

text \<open>The scroll callback, \<open>radius *= exp(-0.1f * float(y))\<close>, in exact arithmetic; its
  binary32 form is \<open>scroll_callback32\<close> below.\<close>

definition scroll_callback :: "real \<Rightarrow> real \<Rightarrow> app_state \<Rightarrow> app_state" where
  "scroll_callback x y s = s\<lparr>radius := radius s * exp (- 0.1 * y)\<rparr>"

text \<open>\<open>std::clamp(v, lo, hi)\<close> is \<open>(v < lo) ? lo : (hi < v) ? hi : v\<close>.\<close>

definition clamp :: "real \<Rightarrow> real \<Rightarrow> real \<Rightarrow> real" where
  "clamp v lo hi = (if v < lo then lo else if hi < v then hi else v)"

text \<open>\<open>constexpr float bound = M_PI_2 - 1e-5f\<close>.\<close>

definition bound :: real where
  "bound = pi / 2 - 1 / 100000"

text \<open>The quantities \<open>update()\<close> derives from the state before it changes it.\<close>

definition camera :: "app_state \<Rightarrow> vec3" where
  "camera s =
     smul3 (radius s)
       (Vec3 (cos (altitude s) * cos (azimuth s)) (cos (altitude s) * sin (azimuth s))
             (sin (altitude s)))"

definition camera_right :: "app_state \<Rightarrow> vec3" where
  "camera_right s = normalize3 (cross (neg3 (camera s)) up)"

definition camera_up :: "app_state \<Rightarrow> vec3" where
  "camera_up s = normalize3 (cross (camera_right s) (neg3 (camera s)))"

definition pixel_size :: "app_state \<Rightarrow> real" where
  "pixel_size s = 2 * tan (0.5 * fov s * pi / 180) / real_of_int (screen_height s)"

text \<open>
  \<open>update()\<close> for one frame: \<open>cursor\<close> is what \<open>glfwGetCursorPos\<close> stores, \<open>left\<close> and
  \<open>right\<close> say whether \<open>glfwGetMouseButton\<close> reports \<open>GLFW_PRESS\<close>. The view matrix and
  the uniform upload are outputs to the GPU and change none of these variables.
\<close>

definition update :: "real \<times> real \<Rightarrow> bool \<Rightarrow> bool \<Rightarrow> app_state \<Rightarrow> app_state" where
  "update cursor left right s =
     (let mouse_move = (fst cursor - fst (mouse_pos s), snd cursor - snd (mouse_pos s));
          s1 = s\<lparr>old_mouse_pos := mouse_pos s, mouse_pos := cursor\<rparr>;
          s2 = (if left
                then s1\<lparr>altitude := clamp (altitude s1 + snd mouse_move * 0.01) (- bound) bound,
                        azimuth := azimuth s1 - fst mouse_move * 0.01\<rparr>
                else s1);
          scale = 1.3 * pixel_size s * length3 (camera s)
      in if right
         then s2\<lparr>origin :=
                   add3 (origin s2)
                     (add3 (smul3 (- scale * fst mouse_move) (camera_right s))
                           (smul3 (scale * snd mouse_move) (camera_up s)))\<rparr>
         else s2)"

text \<open>What the application loop delivers: callbacks during \<open>glfwPollEvents\<close> and one
  \<open>update\<close> per frame.\<close>

datatype event =
    Scroll real real
  | Resize int int
  | Frame "real \<times> real" bool bool

fun handle :: "app_state \<Rightarrow> event \<Rightarrow> app_state" where
  "handle s (Scroll x y) = scroll_callback x y s"
| "handle s (Resize w h) = resize w h s"
| "handle s (Frame cursor left right) = update cursor left right s"

definition run_events :: "app_state \<Rightarrow> event list \<Rightarrow> app_state" where
  "run_events s evs = foldl handle s evs"





section \<open>The Framer's bounding box\<close>

lemmas bounds_simps = min3_def max3_def fmin_def fmax_def

lemmas extract_simps =
  parse_def extract_string_def isspace_def read_vertex_def read_edge_def
  extract_float_decimal_def extract_uint_decimal_def strip_sign_def is_digit_def
  fraction_digits_def indet_zero_def decimal_value_def newline_def

lemma parse_tetrahedron_file:
  "parse extract_float_decimal extract_uint_decimal indet_zero tetrahedron_file =
     Inr (tetrahedron, tetrahedron_edges)"
  by (simp add: tetrahedron_file_def tetrahedron_def tetrahedron_edges_def extract_simps)

text \<open>
  Claim C1. For every parsed, non-empty vertex list the bounding box should be the
  componentwise minimum and maximum over every vertex; for the tetrahedron file that is
  \<open>min = (0,0,0)\<close>, \<open>max = (1,1,1)\<close>. The loop starts at index 2 and steps by 2: on the
  tetrahedron file it looks at vertices 0 and 2 only and yields \<open>max = (0,1,0)\<close>, while
  the scan of every vertex yields \<open>(1,1,1)\<close>.
\<close>

theorem aabb_of_tetrahedron_misses_vertices:
  "parse extract_float_decimal extract_uint_decimal indet_zero tetrahedron_file =
     Inr (tetrahedron, tetrahedron_edges) \<and>
   compute_aabb tetrahedron = Inr (Vec3 0 0 0, Vec3 0 1 0) \<and>
   spec_aabb tetrahedron = Some (Vec3 0 0 0, Vec3 1 1 1)"
proof -
  have "compute_aabb tetrahedron = Inr (Vec3 0 0 0, Vec3 0 1 0)"
    by (simp add: compute_aabb_def tetrahedron_def bounds_simps)
  moreover have "spec_aabb tetrahedron = Some (Vec3 0 0 0, Vec3 1 1 1)"
    by (simp add: spec_aabb_def tetrahedron_def bounds_simps)
  ultimately show ?thesis
    using parse_tetrahedron_file by simp
qed

section \<open>Binary32 rounding\<close>

lemma pow2_powr: "pow2 e = 2 powr real_of_int e"
  by (simp add: pow2_def powr_real_of_int inverse_eq_divide)

lemma pow2_pos: "0 < pow2 e"
  by (simp add: pow2_powr)



lemma pow2_mono: "a \<le> b \<Longrightarrow> pow2 a \<le> pow2 b"
  by (simp add: pow2_powr)

lemma binade_spec:
  "pow2 e0 \<le> a \<Longrightarrow> a < pow2 (e0 + int n) \<Longrightarrow>
     pow2 (binade n e0 a) \<le> a \<and> a < pow2 (binade n e0 a + 1) \<and>
     e0 \<le> binade n e0 a \<and> binade n e0 a < e0 + int n"
proof (induction n arbitrary: e0)
  case 0
  then show ?case by simp
next
  case (Suc n)
  show ?case
  proof (cases "a < pow2 (e0 + 1)")
    case True
    with Suc.prems show ?thesis by simp
  next
    case False
    then have "pow2 (e0 + 1) \<le> a" by simp
    moreover from Suc.prems have "a < pow2 (e0 + 1 + int n)" by (simp add: algebra_simps)
    ultimately have
      "pow2 (binade n (e0 + 1) a) \<le> a \<and> a < pow2 (binade n (e0 + 1) a + 1) \<and>
       e0 + 1 \<le> binade n (e0 + 1) a \<and> binade n (e0 + 1) a < e0 + 1 + int n"
      by (rule Suc.IH)
    with False show ?thesis by simp
  qed
qed

lemma binade_unique:
  assumes "pow2 e \<le> a" "a < pow2 (e + 1)" "pow2 e' \<le> a" "a < pow2 (e' + 1)"
  shows "e = e'"
proof (rule ccontr)
  assume "e \<noteq> e'"
  then consider "e + 1 \<le> e'" | "e' + 1 \<le> e" by linarith
  then show False
  proof cases
    case 1
    then have "pow2 (e + 1) \<le> pow2 e'" by (rule pow2_mono)
    with assms show False by linarith
  next
    case 2
    then have "pow2 (e' + 1) \<le> pow2 e" by (rule pow2_mono)
    with assms show False by linarith
  qed
qed

lemma expo32_normal:
  assumes "pow2 (- 126) \<le> \<bar>x\<bar>" "\<bar>x\<bar> < pow2 128"
  shows "pow2 (expo32 x) \<le> \<bar>x\<bar> \<and> \<bar>x\<bar> < pow2 (expo32 x + 1) \<and>
         - 126 \<le> expo32 x \<and> expo32 x \<le> 127"
  using binade_spec [of "- 126" "\<bar>x\<bar>" 254] assms
  by (simp add: expo32_def)

lemma expo32_eq:
  assumes "pow2 e \<le> \<bar>x\<bar>" "\<bar>x\<bar> < pow2 (e + 1)" "- 126 \<le> e" "e \<le> 127"
  shows "expo32 x = e"
proof -
  have "pow2 (- 126) \<le> pow2 e" using assms(3) by (rule pow2_mono)
  with assms(1) have lo: "pow2 (- 126) \<le> \<bar>x\<bar>" by linarith
  have "pow2 (e + 1) \<le> pow2 128" using assms(4) by (intro pow2_mono) simp
  with assms(2) have hi: "\<bar>x\<bar> < pow2 128" by linarith
  from expo32_normal [OF lo hi] assms(1,2) show ?thesis
    by (meson binade_unique)
qed


lemma rne_of_int: "rne (of_int n) = n"
  by (simp add: rne_def)





lemma round32_zero: "round32 0 = Fin 0"
  by (simp add: round32_def)

lemma round32_in_binade:
  assumes "pow2 e \<le> \<bar>x\<bar>" "\<bar>x\<bar> < pow2 (e + 1)" "- 126 \<le> e" "e \<le> 127"
  shows "round32 x =
    (if 2 ^ 128 \<le> of_int (rne (x / pow2 (e - 23))) * pow2 (e - 23) then PInf
     else if of_int (rne (x / pow2 (e - 23))) * pow2 (e - 23) \<le> - (2 ^ 128) then NInf
     else Fin (of_int (rne (x / pow2 (e - 23))) * pow2 (e - 23)))"
proof -
  have "0 < pow2 e" by (rule pow2_pos)
  with assms(1) have "x \<noteq> 0" by auto
  then show ?thesis
    by (simp add: round32_def Let_def expo32_eq [OF assms])
qed

lemma round32_exactI:
  assumes "pow2 e \<le> \<bar>x\<bar>" "\<bar>x\<bar> < pow2 (e + 1)" "- 126 \<le> e" "e \<le> 127"
    and "x / pow2 (e - 23) = of_int m"
  shows "round32 x = Fin x"
proof -
  have q: "0 < pow2 (e - 23)" by (rule pow2_pos)
  have y: "of_int (rne (x / pow2 (e - 23))) * pow2 (e - 23) = x"
    using q by (simp add: assms(5) rne_of_int) (metis assms(5) nonzero_divide_eq_eq less_irrefl)
  have "pow2 (e + 1) \<le> pow2 128" using assms(4) by (intro pow2_mono) simp
  with assms(2) have "\<bar>x\<bar> < 2 ^ 128" by (simp add: pow2_def)
  then show ?thesis
    unfolding round32_in_binade [OF assms(1-4)] y by (simp add: abs_less_iff)
qed




text \<open>Values of \<open>round32\<close> used at concrete inputs.\<close>

lemma round32_values:
  "round32 1 = Fin 1" "round32 2 = Fin 2" "round32 4 = Fin 4" "round32 6 = Fin 6"
  "round32 (1 / 2) = Fin (1 / 2)"
  "round32 (- 1) = Fin (- 1)" "round32 (- 2) = Fin (- 2)" "round32 (- 3) = Fin (- 3)"
  "round32 (- (1 / 2)) = Fin (- (1 / 2))"
  "round32 2000 = Fin 2000" "round32 10 = Fin 10"
  "round32 (- 16777216) = Fin (- 16777216)"
proof -
  show "round32 1 = Fin 1"
    by (rule round32_exactI [where e = 0 and m = 8388608]) (simp_all add: pow2_def)
  show "round32 2 = Fin 2"
    by (rule round32_exactI [where e = 1 and m = 8388608]) (simp_all add: pow2_def)
  show "round32 4 = Fin 4"
    by (rule round32_exactI [where e = 2 and m = 8388608]) (simp_all add: pow2_def)
  show "round32 6 = Fin 6"
    by (rule round32_exactI [where e = 2 and m = 12582912]) (simp_all add: pow2_def)
  show "round32 (1 / 2) = Fin (1 / 2)"
    by (rule round32_exactI [where e = "- 1" and m = 8388608]) (simp_all add: pow2_def)
  show "round32 (- 1) = Fin (- 1)"
    by (rule round32_exactI [where e = 0 and m = "- 8388608"]) (simp_all add: pow2_def)
  show "round32 (- 2) = Fin (- 2)"
    by (rule round32_exactI [where e = 1 and m = "- 8388608"]) (simp_all add: pow2_def)
  show "round32 (- 3) = Fin (- 3)"
    by (rule round32_exactI [where e = 1 and m = "- 12582912"]) (simp_all add: pow2_def)
  show "round32 (- (1 / 2)) = Fin (- (1 / 2))"
    by (rule round32_exactI [where e = "- 1" and m = "- 8388608"]) (simp_all add: pow2_def)
  show "round32 2000 = Fin 2000"
    by (rule round32_exactI [where e = 10 and m = 16384000]) (simp_all add: pow2_def)
  show "round32 10 = Fin 10"
    by (rule round32_exactI [where e = 3 and m = 10485760]) (simp_all add: pow2_def)
  show "round32 (- 16777216) = Fin (- 16777216)"
    by (rule round32_exactI [where e = 24 and m = "- 8388608"]) (simp_all add: pow2_def)
qed

lemma round32_tie_to_even: "round32 33554434 = Fin 33554432"
  using round32_in_binade [of 25 33554434]
  by (simp add: pow2_def rne_def)


section \<open>The model matrix\<close>

lemmas glm_simps =
  model_matrix_def glm_translate_def glm_scale_def mat4_identity_def to_fvec3_def
  fadd3_def fsub3_def fscale3_def fquot3_def fsmul4_def fadd4_def fsub_def

lemma axis_scale:
  assumes "lo < hi" and "exact_axis lo hi"
  shows "fdiv (Fin 1) (fmul (Fin 0.5) (fsub (Fin hi) (Fin lo))) = Fin (2 / (hi - lo))"
    and "fmul (Fin (- 0.5)) (fadd (Fin hi) (Fin lo)) = Fin (- ((hi + lo) / 2))"
    and "round32 (2 / (hi - lo)) = Fin (2 / (hi - lo))"
    and "round32 (2 / (hi - lo) * - ((hi + lo) / 2)) = Fin (2 / (hi - lo) * - ((hi + lo) / 2))"
proof -
  from assms(2) have
    d: "round32 (hi - lo) = Fin (hi - lo)" and
    h: "round32 (0.5 * (hi - lo)) = Fin (0.5 * (hi - lo))" and
    s: "round32 (1 / (0.5 * (hi - lo))) = Fin (1 / (0.5 * (hi - lo)))" and
    c: "round32 (hi + lo) = Fin (hi + lo)" and
    t: "round32 (- 0.5 * (hi + lo)) = Fin (- 0.5 * (hi + lo))" and
    p: "round32 (1 / (0.5 * (hi - lo)) * (- 0.5 * (hi + lo)))
          = Fin (1 / (0.5 * (hi - lo)) * (- 0.5 * (hi + lo)))"
    by (simp_all only: exact_axis_def representable_def)
  have ne: "0.5 * (hi - lo) \<noteq> 0" using assms(1) by simp
  have s': "1 / (0.5 * (hi - lo)) = 2 / (hi - lo)" by simp
  have t': "- 0.5 * (hi + lo) = - ((hi + lo) / 2)" by simp
  have "fsub (Fin hi) (Fin lo) = Fin (hi - lo)"
    using d by (simp add: fsub_def)
  then have "fmul (Fin 0.5) (fsub (Fin hi) (Fin lo)) = Fin (0.5 * (hi - lo))"
    using h by (simp only: fmul.simps)
  then have "fdiv (Fin 1) (fmul (Fin 0.5) (fsub (Fin hi) (Fin lo))) = Fin (1 / (0.5 * (hi - lo)))"
    using s ne by (simp only: fdiv.simps if_False)
  then show "fdiv (Fin 1) (fmul (Fin 0.5) (fsub (Fin hi) (Fin lo))) = Fin (2 / (hi - lo))"
    by (simp only: s')
  have "fadd (Fin hi) (Fin lo) = Fin (hi + lo)"
    using c by (simp only: fadd.simps)
  then have "fmul (Fin (- 0.5)) (fadd (Fin hi) (Fin lo)) = Fin (- 0.5 * (hi + lo))"
    using t by (simp only: fmul.simps)
  then show "fmul (Fin (- 0.5)) (fadd (Fin hi) (Fin lo)) = Fin (- ((hi + lo) / 2))"
    by (simp only: t')
  show "round32 (2 / (hi - lo)) = Fin (2 / (hi - lo))"
    using s by (simp only: s')
  show "round32 (2 / (hi - lo) * - ((hi + lo) / 2)) = Fin (2 / (hi - lo) * - ((hi + lo) / 2))"
    using p by (simp only: s' t')
qed

lemma scale_then_translate:
  assumes "round32 sx = Fin sx" and "round32 sy = Fin sy" and "round32 sz = Fin sz"
    and "round32 (sx * tx) = Fin (sx * tx)" and "round32 (sy * ty) = Fin (sy * ty)"
    and "round32 (sz * tz) = Fin (sz * tz)"
  shows "glm_translate (glm_scale mat4_identity (FVec3 (Fin sx) (Fin sy) (Fin sz)))
           (FVec3 (Fin tx) (Fin ty) (Fin tz)) =
     FMat4 (FVec4 (Fin sx) (Fin 0) (Fin 0) (Fin 0))
           (FVec4 (Fin 0) (Fin sy) (Fin 0) (Fin 0))
           (FVec4 (Fin 0) (Fin 0) (Fin sz) (Fin 0))
           (FVec4 (Fin (sx * tx)) (Fin (sy * ty)) (Fin (sz * tz)) (Fin 1))"
  by (simp add: glm_translate_def glm_scale_def mat4_identity_def fsmul4_def fadd4_def
        round32_zero round32_values(1) assms)

lemma model_matrix_exact:
  assumes "vx lo < vx hi" and "vy lo < vy hi" and "vz lo < vz hi"
    and "exact_axis (vx lo) (vx hi)" and "exact_axis (vy lo) (vy hi)"
    and "exact_axis (vz lo) (vz hi)"
  shows "model_matrix lo hi =
     FMat4 (FVec4 (Fin (2 / (vx hi - vx lo))) (Fin 0) (Fin 0) (Fin 0))
           (FVec4 (Fin 0) (Fin (2 / (vy hi - vy lo))) (Fin 0) (Fin 0))
           (FVec4 (Fin 0) (Fin 0) (Fin (2 / (vz hi - vz lo))) (Fin 0))
           (FVec4 (Fin (2 / (vx hi - vx lo) * - ((vx hi + vx lo) / 2)))
                  (Fin (2 / (vy hi - vy lo) * - ((vy hi + vy lo) / 2)))
                  (Fin (2 / (vz hi - vz lo) * - ((vz hi + vz lo) / 2))) (Fin 1))"
proof -
  note x = axis_scale [OF assms(1) assms(4)]
  note y = axis_scale [OF assms(2) assms(5)]
  note z = axis_scale [OF assms(3) assms(6)]
  have v: "fquot3 (Fin 1) (fscale3 (Fin 0.5) (fsub3 (to_fvec3 hi) (to_fvec3 lo))) =
      FVec3 (Fin (2 / (vx hi - vx lo))) (Fin (2 / (vy hi - vy lo))) (Fin (2 / (vz hi - vz lo)))"
    by (simp only: fquot3_def fscale3_def fsub3_def to_fvec3_def fvec3.sel x(1) y(1) z(1))
  have w: "fscale3 (Fin (- 0.5)) (fadd3 (to_fvec3 hi) (to_fvec3 lo)) =
      FVec3 (Fin (- ((vx hi + vx lo) / 2))) (Fin (- ((vy hi + vy lo) / 2)))
            (Fin (- ((vz hi + vz lo) / 2)))"
    by (simp only: fscale3_def fadd3_def to_fvec3_def fvec3.sel x(2) y(2) z(2))
  show ?thesis
    unfolding model_matrix_def v w
    by (rule scale_then_translate [OF x(3) y(3) z(3) x(4) y(4) z(4)])
qed

lemma axis_image:
  fixes lo hi p :: real
  assumes "lo < hi"
  shows "2 / (hi - lo) * p + 2 / (hi - lo) * - ((hi + lo) / 2) = (2 * p - (hi + lo)) / (hi - lo)"
proof -
  define d where "d = hi - lo"
  have d: "d \<noteq> 0" using assms by (simp add: d_def)
  have "2 / d * p + 2 / d * - ((hi + lo) / 2) = (2 * p - (hi + lo)) / d"
    using d by (simp add: field_simps)
  then show ?thesis by (simp only: d_def)
qed

lemma model_matrix_point:
  assumes "vx lo < vx hi" and "vy lo < vy hi" and "vz lo < vz hi"
    and "exact_axis (vx lo) (vx hi)" and "exact_axis (vy lo) (vy hi)"
    and "exact_axis (vz lo) (vz hi)"
  shows "\<exists>m. finite_mat4 (model_matrix lo hi) = Some m \<and>
            (\<forall>p. transform_point m p =
                   Vec4 ((2 * vx p - (vx hi + vx lo)) / (vx hi - vx lo))
                        ((2 * vy p - (vy hi + vy lo)) / (vy hi - vy lo))
                        ((2 * vz p - (vz hi + vz lo)) / (vz hi - vz lo)) 1)"
  unfolding model_matrix_exact [OF assms]
  using axis_image [OF assms(1)] axis_image [OF assms(2)] axis_image [OF assms(3)]
  by (simp add: finite_mat4_def finite_vec4_def transform_point_def mul_mv_def add4_def
        smul4_def mult.commute)

lemma axis_lo:
  fixes lo hi :: real
  shows "lo < hi \<Longrightarrow> (2 * lo - (hi + lo)) / (hi - lo) = - 1"
  by (simp add: field_simps)

lemma axis_hi:
  fixes lo hi :: real
  shows "lo < hi \<Longrightarrow> (2 * hi - (hi + lo)) / (hi - lo) = 1"
  by (simp add: field_simps)

lemma axis_in:
  fixes lo hi p :: real
  shows "lo < hi \<Longrightarrow>
    (- 1 \<le> (2 * p - (hi + lo)) / (hi - lo) \<and> (2 * p - (hi + lo)) / (hi - lo) \<le> 1)
      = (lo \<le> p \<and> p \<le> hi)"
  by (auto simp add: field_simps)

lemma axis_onto:
  fixes lo hi q :: real
  shows "lo < hi \<Longrightarrow> (2 * ((hi + lo + q * (hi - lo)) / 2) - (hi + lo)) / (hi - lo) = q"
  by (simp add: field_simps)

text \<open>
  Claim C2, as the code has it. The model matrix is computed in binary32. For every
  bounding box with strictly positive extent on all three axes on which that
  computation rounds nowhere (the difference, its half, the reciprocal, the sum, its
  negated half and the product of scale and offset are binary32 numbers on each axis),
  the matrix is finite, it maps \<open>aabb_min\<close> to \<open>(-1,-1,-1)\<close> and \<open>aabb_max\<close> to \<open>(1,1,1)\<close>,
  and it maps the box onto the cube \<open>[-1,1]\<^sup>3\<close>: a point lies in the box exactly when
  its image lies in the cube, and every point of the cube is the image of a point of the
  box.
\<close>

theorem model_matrix_maps_aabb_onto_cube_when_exact:
  assumes "vx lo < vx hi" and "vy lo < vy hi" and "vz lo < vz hi"
    and "exact_axis (vx lo) (vx hi)" and "exact_axis (vy lo) (vy hi)"
    and "exact_axis (vz lo) (vz hi)"
  shows "\<exists>m. finite_mat4 (model_matrix lo hi) = Some m \<and>
            transform_point m lo = Vec4 (- 1) (- 1) (- 1) 1 \<and>
            transform_point m hi = Vec4 1 1 1 1 \<and>
            (\<forall>p. inside_cube (transform_point m p) = inside_box lo hi p) \<and>
            (\<forall>q. inside_cube q \<longrightarrow> (\<exists>p. inside_box lo hi p \<and> transform_point m p = q))"
proof -
  from model_matrix_point [OF assms] obtain m where
    m: "finite_mat4 (model_matrix lo hi) = Some m" and
    tp: "\<And>p. transform_point m p =
       Vec4 ((2 * vx p - (vx hi + vx lo)) / (vx hi - vx lo))
            ((2 * vy p - (vy hi + vy lo)) / (vy hi - vy lo))
            ((2 * vz p - (vz hi + vz lo)) / (vz hi - vz lo)) 1"
    by blast
  have lo: "transform_point m lo = Vec4 (- 1) (- 1) (- 1) 1"
    by (simp only: tp axis_lo [OF assms(1)] axis_lo [OF assms(2)] axis_lo [OF assms(3)])
  have hi: "transform_point m hi = Vec4 1 1 1 1"
    by (simp only: tp axis_hi [OF assms(1)] axis_hi [OF assms(2)] axis_hi [OF assms(3)])
  have box: "inside_cube (transform_point m p) = inside_box lo hi p" for p
    using axis_in [OF assms(1), of "vx p"] axis_in [OF assms(2), of "vy p"]
      axis_in [OF assms(3), of "vz p"]
    by (simp add: tp inside_cube_def inside_box_def) blast
  have onto: "\<exists>p. inside_box lo hi p \<and> transform_point m p = q" if q: "inside_cube q" for q
  proof -
    define p where "p = Vec3 ((vx hi + vx lo + wx q * (vx hi - vx lo)) / 2)
                             ((vy hi + vy lo + wy q * (vy hi - vy lo)) / 2)
                             ((vz hi + vz lo + wz q * (vz hi - vz lo)) / 2)"
    have "transform_point m p = Vec4 (wx q) (wy q) (wz q) 1"
      by (simp only: tp p_def vec3.sel axis_onto [OF assms(1)] axis_onto [OF assms(2)]
            axis_onto [OF assms(3)])
    also have "\<dots> = q" using q by (cases q) (simp add: inside_cube_def)
    finally have eq: "transform_point m p = q" .
    with q box [of p] show ?thesis by auto
  qed
  from m lo hi box onto show ?thesis by blast
qed

text \<open>Witness for C2: the unit box \<open>(0,0,0)\<close> to \<open>(1,1,1)\<close> of the tetrahedron, where the
  matrix is \<open>2\<close> on the diagonal and \<open>-1\<close> in the last column, with the cube's centre as
  the point to be reached.\<close>

theorem model_matrix_maps_aabb_onto_cube_when_exact_witness:
  "vx (Vec3 0 0 0) < vx (Vec3 1 1 1) \<and> vy (Vec3 0 0 0) < vy (Vec3 1 1 1) \<and>
   vz (Vec3 0 0 0) < vz (Vec3 1 1 1) \<and> exact_axis 0 1 \<and>
   model_matrix (Vec3 0 0 0) (Vec3 1 1 1) =
     FMat4 (FVec4 (Fin 2) (Fin 0) (Fin 0) (Fin 0)) (FVec4 (Fin 0) (Fin 2) (Fin 0) (Fin 0))
           (FVec4 (Fin 0) (Fin 0) (Fin 2) (Fin 0))
           (FVec4 (Fin (- 1)) (Fin (- 1)) (Fin (- 1)) (Fin 1)) \<and>
   (\<exists>m. finite_mat4 (model_matrix (Vec3 0 0 0) (Vec3 1 1 1)) = Some m \<and>
        transform_point m (Vec3 0 0 0) = Vec4 (- 1) (- 1) (- 1) 1 \<and>
        transform_point m (Vec3 1 1 1) = Vec4 1 1 1 1 \<and>
        inside_cube (Vec4 0 0 0 1) \<and>
        (\<exists>p. inside_box (Vec3 0 0 0) (Vec3 1 1 1) p \<and> transform_point m p = Vec4 0 0 0 1))"
proof -
  have h: "vx (Vec3 0 0 0) < vx (Vec3 1 1 1)" "vy (Vec3 0 0 0) < vy (Vec3 1 1 1)"
    "vz (Vec3 0 0 0) < vz (Vec3 1 1 1)"
    by simp_all
  have e: "exact_axis 0 1"
    by (simp add: exact_axis_def representable_def round32_values)
  then have e3: "exact_axis (vx (Vec3 0 0 0)) (vx (Vec3 1 1 1))"
    "exact_axis (vy (Vec3 0 0 0)) (vy (Vec3 1 1 1))"
    "exact_axis (vz (Vec3 0 0 0)) (vz (Vec3 1 1 1))"
    by simp_all
  have v: "model_matrix (Vec3 0 0 0) (Vec3 1 1 1) =
     FMat4 (FVec4 (Fin 2) (Fin 0) (Fin 0) (Fin 0)) (FVec4 (Fin 0) (Fin 2) (Fin 0) (Fin 0))
           (FVec4 (Fin 0) (Fin 0) (Fin 2) (Fin 0))
           (FVec4 (Fin (- 1)) (Fin (- 1)) (Fin (- 1)) (Fin 1))"
    by (simp add: glm_simps round32_zero round32_values)
  have c: "inside_cube (Vec4 0 0 0 1)" by (simp add: inside_cube_def)
  from model_matrix_maps_aabb_onto_cube_when_exact [OF h e3] c h e v show ?thesis by blast
qed

text \<open>
  Claim C2 as stated fails on the box from \<open>2\<^sup>2\<^sup>4\<close> to \<open>2\<^sup>2\<^sup>4 + 2\<close> on each axis, whose
  extent is positive: the sum \<open>aabb_max + aabb_min = 2\<^sup>2\<^sup>5 + 2\<close> is rounded to \<open>2\<^sup>2\<^sup>5\<close>,
  the matrix has scale 1 and offset \<open>-2\<^sup>2\<^sup>4\<close>, and it maps \<open>aabb_min\<close> to \<open>(0,0,0)\<close> and
  \<open>aabb_max\<close> to \<open>(2,2,2)\<close>.
\<close>

theorem model_matrix_misses_cube_after_rounding:
  "(16777216 :: real) < 16777218 \<and>
   model_matrix (Vec3 16777216 16777216 16777216) (Vec3 16777218 16777218 16777218) =
     FMat4 (FVec4 (Fin 1) (Fin 0) (Fin 0) (Fin 0)) (FVec4 (Fin 0) (Fin 1) (Fin 0) (Fin 0))
           (FVec4 (Fin 0) (Fin 0) (Fin 1) (Fin 0))
           (FVec4 (Fin (- 16777216)) (Fin (- 16777216)) (Fin (- 16777216)) (Fin 1)) \<and>
   finite_mat4
     (model_matrix (Vec3 16777216 16777216 16777216) (Vec3 16777218 16777218 16777218)) =
     Some (Mat4 (Vec4 1 0 0 0) (Vec4 0 1 0 0) (Vec4 0 0 1 0)
                (Vec4 (- 16777216) (- 16777216) (- 16777216) 1)) \<and>
   transform_point
     (Mat4 (Vec4 1 0 0 0) (Vec4 0 1 0 0) (Vec4 0 0 1 0)
           (Vec4 (- 16777216) (- 16777216) (- 16777216) 1))
     (Vec3 16777216 16777216 16777216) = Vec4 0 0 0 1 \<and>
   transform_point
     (Mat4 (Vec4 1 0 0 0) (Vec4 0 1 0 0) (Vec4 0 0 1 0)
           (Vec4 (- 16777216) (- 16777216) (- 16777216) 1))
     (Vec3 16777218 16777218 16777218) = Vec4 2 2 2 1"
proof -
  have v: "model_matrix (Vec3 16777216 16777216 16777216) (Vec3 16777218 16777218 16777218) =
     FMat4 (FVec4 (Fin 1) (Fin 0) (Fin 0) (Fin 0)) (FVec4 (Fin 0) (Fin 1) (Fin 0) (Fin 0))
           (FVec4 (Fin 0) (Fin 0) (Fin 1) (Fin 0))
           (FVec4 (Fin (- 16777216)) (Fin (- 16777216)) (Fin (- 16777216)) (Fin 1))"
    by (simp add: glm_simps round32_zero round32_values round32_tie_to_even)
  show ?thesis
    unfolding v
    by (simp add: finite_mat4_def finite_vec4_def transform_point_def mul_mv_def add4_def
          smul4_def)
qed

text \<open>
  Claim C3, as the code has it. The Framer substitutes nothing for a zero extent: on an
  axis where \<open>aabb_max\<close> and \<open>aabb_min\<close> agree, the half extent is \<open>0\<close>, the division
  \<open>1.0f / 0\<close> is carried out and gives \<open>+\<infinity>\<close>, the scale entry of the model matrix on
  that axis is \<open>+\<infinity>\<close>, and the matrix is not finite.
\<close>

theorem zero_extent_gives_infinite_scale:
  "(vx aabb_max = vx aabb_min \<longrightarrow> gx (fcol0 (model_matrix aabb_min aabb_max)) = PInf) \<and>
   (vy aabb_max = vy aabb_min \<longrightarrow> gy (fcol1 (model_matrix aabb_min aabb_max)) = PInf) \<and>
   (vz aabb_max = vz aabb_min \<longrightarrow> gz (fcol2 (model_matrix aabb_min aabb_max)) = PInf) \<and>
   (vx aabb_max = vx aabb_min \<or> vy aabb_max = vy aabb_min \<or> vz aabb_max = vz aabb_min \<longrightarrow>
      finite_mat4 (model_matrix aabb_min aabb_max) = None)"
proof -
  have z: "fmul (Fin 1) (fdiv (Fin 1) (fmul (Fin 0.5) (fsub (Fin a) (Fin a)))) = PInf" for a
    by (simp add: fsub_def round32_zero)
  have x: "gx (fcol0 (model_matrix aabb_min aabb_max)) = PInf" if "vx aabb_max = vx aabb_min"
    using z [of "vx aabb_min"] that by (simp add: glm_simps)
  have y: "gy (fcol1 (model_matrix aabb_min aabb_max)) = PInf" if "vy aabb_max = vy aabb_min"
    using z [of "vy aabb_min"] that by (simp add: glm_simps)
  have w: "gz (fcol2 (model_matrix aabb_min aabb_max)) = PInf" if "vz aabb_max = vz aabb_min"
    using z [of "vz aabb_min"] that by (simp add: glm_simps)
  have fx: "finite_mat4 m = None" if "gx (fcol0 m) = PInf" for m
    using that by (simp add: finite_mat4_def finite_vec4_def)
  have fy: "finite_mat4 m = None" if "gy (fcol1 m) = PInf" for m
    using that by (simp add: finite_mat4_def finite_vec4_def split: option.splits f32.splits)
  have fz: "finite_mat4 m = None" if "gz (fcol2 m) = PInf" for m
    using that by (simp add: finite_mat4_def finite_vec4_def split: option.splits f32.splits)
  from x y w fx fy fz show ?thesis by blast
qed

text \<open>Witness for C3: the box from \<open>(-2,0,0)\<close> to \<open>(2,0,0)\<close> of the specification's second
  scenario, flat on the \<open>y\<close> and \<open>z\<close> axes.\<close>

theorem zero_extent_gives_infinite_scale_witness:
  "vy (Vec3 2 0 0) = vy (Vec3 (- 2) 0 0) \<and>
   gy (fcol1 (model_matrix (Vec3 (- 2) 0 0) (Vec3 2 0 0))) = PInf \<and>
   gz (fcol2 (model_matrix (Vec3 (- 2) 0 0) (Vec3 2 0 0))) = PInf \<and>
   finite_mat4 (model_matrix (Vec3 (- 2) 0 0) (Vec3 2 0 0)) = None"
  using zero_extent_gives_infinite_scale [of "Vec3 2 0 0" "Vec3 (- 2) 0 0"]
  by simp

text \<open>Claim C3 as stated fails on a file with a single vertex: the box is the vertex
  itself, no extent is substituted, every division is by zero, and \<open>main\<close> goes on with a
  model matrix whose entries are \<open>+\<infinity>\<close> and NaN.\<close>

theorem single_vertex_has_no_finite_model_matrix:
  "main_body extract_float_decimal extract_uint_decimal indet_zero ''v 1 2 3'' =
     Inr ([Vec3 1 2 3], [], (Vec3 1 2 3, Vec3 1 2 3),
          FMat4 (FVec4 PInf NaN NaN NaN) (FVec4 NaN PInf NaN NaN)
                (FVec4 NaN NaN PInf NaN) (FVec4 NaN NaN NaN NaN))"
  by (simp add: main_body_def extract_simps compute_aabb_def glm_simps round32_zero
        round32_values)

section \<open>The parser\<close>

lemma parse_lines_fails_iff:
  "(\<exists>e. parse_lines gf gu indet ls acc = Inl e) \<longleftrightarrow> (\<exists>line \<in> set ls. unknown_line line)"
proof (induction ls arbitrary: acc)
  case Nil
  then show ?case by (cases acc) simp
next
  case (Cons line rest)
  obtain vs es where acc: "acc = (vs, es)" by (cases acc)
  show ?case
    unfolding acc using Cons.IH
    by (simp add: unknown_line_def command_of_def)
qed

lemma parse_lines_error:
  "parse_lines gf gu indet ls acc = Inl e \<Longrightarrow>
     \<exists>line \<in> set ls. unknown_line line \<and> e = Unknown_command (command_of line)"
proof (induction ls arbitrary: acc)
  case Nil
  then show ?case by (cases acc) simp
next
  case (Cons line rest)
  obtain vs es where acc: "acc = (vs, es)" by (cases acc)
  from Cons.prems show ?case
    unfolding acc using Cons.IH
    by (auto simp add: unknown_line_def command_of_def split: if_splits)
qed

lemma parse_lines_result:
  "parse_lines gf gu indet ls (vs0, es0) = Inr (vs, es) \<Longrightarrow>
     es = es0 @ map (\<lambda>l. read_edge gu (fst (extract_string l))) (filter edge_line ls) \<and>
     length vs = length vs0 + length (filter vertex_line ls)"
proof (induction ls arbitrary: vs0 es0)
  case Nil
  then show ?case by simp
next
  case (Cons line rest)
  consider (blank) "line = []"
    | (v) "line \<noteq> []" "command_of line = ''v''"
    | (l) "line \<noteq> []" "command_of line \<noteq> ''v''" "command_of line = ''l''"
    | (bad) "line \<noteq> []" "command_of line \<noteq> ''v''" "command_of line \<noteq> ''l''"
    by blast
  then show ?case
  proof cases
    case blank
    with Cons.prems have "parse_lines gf gu indet rest (vs0, es0) = Inr (vs, es)" by simp
    from Cons.IH [OF this] blank show ?thesis
      by (simp add: edge_line_def vertex_line_def)
  next
    case v
    with Cons.prems have
      "parse_lines gf gu indet rest
         (vs0 @ [read_vertex gf (indet (length vs0)) (fst (extract_string line))], es0)
       = Inr (vs, es)"
      by (simp add: command_of_def)
    from Cons.IH [OF this] v show ?thesis
      by (simp add: edge_line_def vertex_line_def)
  next
    case l
    with Cons.prems have
      "parse_lines gf gu indet rest
         (vs0, es0 @ [read_edge gu (fst (extract_string line))]) = Inr (vs, es)"
      by (simp add: command_of_def)
    from Cons.IH [OF this] l show ?thesis
      by (simp add: edge_line_def vertex_line_def)
  next
    case bad
    with Cons.prems show ?thesis by (simp add: command_of_def)
  qed
qed

lemma parse_lines_no_vertex:
  "\<forall>line \<in> set ls. line = [] \<or> command_of line = ''l'' \<Longrightarrow>
     \<exists>es. parse_lines gf gu indet ls ([], es0) = Inr ([], es)"
proof (induction ls arbitrary: es0)
  case Nil
  then show ?case by simp
next
  case (Cons line rest)
  then show ?case
    by (auto simp add: command_of_def)
qed

text \<open>
  Claim C6, as the code has it. The parser fails exactly when some line is non-empty
  and its command (the first whitespace-separated token, empty for a line of whitespace
  only) is neither \<open>v\<close> nor \<open>l\<close>; the error then names the command of such a line. The
  numeric fields play no part: whatever the two extractors do with them, every other
  input is accepted.
\<close>

theorem parse_fails_iff_unknown_command:
  "((\<exists>e. parse get_float get_uint indet content = Inl e) =
      (\<exists>line \<in> set (getlines [] content). unknown_line line)) \<and>
   (\<forall>e. parse get_float get_uint indet content = Inl e \<longrightarrow>
      (\<exists>line \<in> set (getlines [] content).
         unknown_line line \<and> e = Unknown_command (command_of line)))"
  unfolding parse_def
  using parse_lines_fails_iff [of get_float get_uint indet "getlines [] content" "([], [])"]
    parse_lines_error [of get_float get_uint indet "getlines [] content" "([], [])"]
  by blast

text \<open>Witness for C6: the file \<open>x 1 2 3\<close> of the specification's sixth scenario is
  rejected, and the error names \<open>x\<close>.\<close>

theorem parse_fails_iff_unknown_command_witness:
  "parse extract_float_decimal extract_uint_decimal indet_zero ''x 1 2 3'' =
     Inl (Unknown_command ''x'') \<and>
   (\<exists>line \<in> set (getlines [] ''x 1 2 3'').
      unknown_line line \<and> Unknown_command ''x'' = Unknown_command (command_of line))"
proof -
  have p: "parse extract_float_decimal extract_uint_decimal indet_zero ''x 1 2 3'' =
             Inl (Unknown_command ''x'')"
    by (simp add: extract_simps)
  with parse_fails_iff_unknown_command
         [of extract_float_decimal extract_uint_decimal indet_zero "''x 1 2 3''"]
  show ?thesis by blast
qed

text \<open>Claim C6 as stated fails on the file \<open>v abc\<close>: its \<open>v\<close> line has a malformed numeric
  field (the extraction of \<open>v.x\<close> sets \<open>failbit\<close>), and the parser accepts it.\<close>

theorem parse_accepts_malformed_number:
  "failbit (fst (extract_float_decimal (fst (extract_string ''v abc'')) 0)) \<and>
   parse extract_float_decimal extract_uint_decimal indet_zero ''v abc'' =
     Inr ([Vec3 0 0 0], [])"
  by (simp add: extract_simps)

text \<open>
  Claim C7, as the code has it. The parser stores the indices of an \<open>l\<close> line as they
  are extracted and compares them with nothing: for every accepted input the edge list
  is the list of pairs read from the \<open>l\<close> lines, in order, and the vertex list has one
  entry for each \<open>v\<close> line.
\<close>

theorem parse_edges_are_unvalidated:
  "parse get_float get_uint indet content = Inr (vs, es) \<Longrightarrow>
     es = map (\<lambda>l. read_edge get_uint (fst (extract_string l)))
            (filter edge_line (getlines [] content)) \<and>
     length vs = length (filter vertex_line (getlines [] content))"
  unfolding parse_def
  using parse_lines_result [of get_float get_uint indet "getlines [] content" "[]" "[]" vs es]
  by simp

text \<open>Witness for C7: one vertex and the edge \<open>(0, 5)\<close>.\<close>

theorem parse_edges_are_unvalidated_witness:
  "parse extract_float_decimal extract_uint_decimal indet_zero
     (''v 0 0 0'' @ newline @ ''l 0 5'') = Inr ([Vec3 0 0 0], [(0, 5)]) \<and>
   [(0, 5)] = map (\<lambda>l. read_edge extract_uint_decimal (fst (extract_string l)))
                (filter edge_line (getlines [] (''v 0 0 0'' @ newline @ ''l 0 5''))) \<and>
   length [Vec3 0 0 0] = length (filter vertex_line (getlines [] (''v 0 0 0'' @ newline @ ''l 0 5'')))"
proof -
  have p: "parse extract_float_decimal extract_uint_decimal indet_zero
             (''v 0 0 0'' @ newline @ ''l 0 5'') = Inr ([Vec3 0 0 0], [(0, 5)])"
    by (simp add: extract_simps)
  from parse_edges_are_unvalidated [OF p] p show ?thesis by simp
qed

text \<open>Claim C7 as stated fails on the same file: it is accepted, it has one vertex, and
  its edge names vertex 5.\<close>

theorem parse_accepts_dangling_edge:
  "parse extract_float_decimal extract_uint_decimal indet_zero
     (''v 0 0 0'' @ newline @ ''l 0 5'') = Inr ([Vec3 0 0 0], [(0, 5)]) \<and>
   \<not> unat (5 :: 32 word) < length [Vec3 0 0 0]"
  by (simp add: extract_simps)

text \<open>
  Claim C10. The bounding box reads element 0 of the vertex list without a test: the
  read is out of range exactly when the list is empty. A file whose lines are all empty
  or \<open>l\<close> lines is accepted by the parser with an empty vertex list, and \<open>main\<close> then makes
  that read.
\<close>

theorem empty_vertex_list_is_read_out_of_range:
  "((compute_aabb vs = Inl Out_of_range) = (vs = [])) \<and>
   ((\<forall>line \<in> set (getlines [] content). line = [] \<or> command_of line = ''l'') \<longrightarrow>
      (\<exists>es. parse get_float get_uint indet content = Inr ([], es)) \<and>
      main_body get_float get_uint indet content = Inl Out_of_range)"
proof -
  have a: "(compute_aabb vs = Inl Out_of_range) = (vs = [])"
    by (cases vs) (simp_all add: compute_aabb_def)
  have b: "(\<exists>es. parse get_float get_uint indet content = Inr ([], es)) \<and>
           main_body get_float get_uint indet content = Inl Out_of_range"
    if h: "\<forall>line \<in> set (getlines [] content). line = [] \<or> command_of line = ''l''"
  proof -
    from parse_lines_no_vertex [OF h, of get_float get_uint indet "[]"]
    obtain es where "parse get_float get_uint indet content = Inr ([], es)"
      unfolding parse_def by blast
    then show ?thesis by (simp add: main_body_def compute_aabb_def)
  qed
  from a b show ?thesis by blast
qed

text \<open>Witness for C10: a file with the single line \<open>l 0 1\<close>.\<close>

theorem empty_vertex_list_is_read_out_of_range_witness:
  "getlines [] ''l 0 1'' = [''l 0 1''] \<and> command_of ''l 0 1'' = ''l'' \<and>
   parse extract_float_decimal extract_uint_decimal indet_zero ''l 0 1'' = Inr ([], [(0, 1)]) \<and>
   main_body extract_float_decimal extract_uint_decimal indet_zero ''l 0 1'' = Inl Out_of_range"
proof -
  have h: "\<forall>line \<in> set (getlines [] ''l 0 1''). line = [] \<or> command_of line = ''l''"
    by (simp add: command_of_def extract_string_def isspace_def)
  have p: "parse extract_float_decimal extract_uint_decimal indet_zero ''l 0 1'' = Inr ([], [(0, 1)])"
    by (simp add: extract_simps)
  have c: "getlines [] ''l 0 1'' = [''l 0 1'']" "command_of ''l 0 1'' = ''l''"
    by (simp_all add: command_of_def extract_string_def isspace_def)
  from empty_vertex_list_is_read_out_of_range
         [of "[]" "''l 0 1''" extract_float_decimal extract_uint_decimal indet_zero] h p c
  show ?thesis by blast
qed

section \<open>The Controller\<close>

subsection \<open>Altitude\<close>

lemma bound_pos: "0 < bound"
  using pi_ge_two by (simp add: bound_def)

lemma bound_less: "bound < pi / 2"
  by (simp add: bound_def)

lemma clamp_range: "lo \<le> hi \<Longrightarrow> lo \<le> clamp v lo hi \<and> clamp v lo hi \<le> hi"
  by (simp add: clamp_def)

lemma altitude_update:
  "altitude (update cursor left right s) =
     (if left then clamp (altitude s + (snd cursor - snd (mouse_pos s)) * 0.01) (- bound) bound
      else altitude s)"
  by (simp add: update_def Let_def)

lemma altitude_handle:
  assumes "\<bar>altitude s\<bar> \<le> bound"
  shows "\<bar>altitude (handle s ev)\<bar> \<le> bound"
proof (cases ev)
  case (Frame cursor left right)
  from assms show ?thesis
    using clamp_range [of "- bound" bound "altitude s + (snd cursor - snd (mouse_pos s)) * 0.01"]
      bound_pos
    by (simp add: Frame altitude_update abs_le_iff)
qed (use assms in \<open>simp_all add: scroll_callback_def resize_def\<close>)

lemma altitude_run:
  "\<bar>altitude s\<bar> \<le> bound \<Longrightarrow> \<bar>altitude (run_events s evs)\<bar> \<le> bound"
  unfolding run_events_def
  by (induction evs arbitrary: s) (simp_all add: altitude_handle)

text \<open>
  Claim C4. Starting from the initial state (altitude 0), after every sequence of events
  the altitude lies strictly inside \<open>(-\<pi>/2, \<pi>/2)\<close>, within \<open>\<plusminus>bound\<close> where
  \<open>bound = \<pi>/2 - 1e-5\<close>. Every frame with the left button held sets the altitude to
  \<open>altitude + dy * 0.01\<close> clamped to \<open>[-bound, bound]\<close>; when the sum lies beyond a bound
  the altitude is that bound.
\<close>

theorem altitude_stays_inside_poles:
  "bound = pi / 2 - 1 / 100000 \<and>
   - (pi / 2) < altitude (run_events initial_state evs) \<and>
   altitude (run_events initial_state evs) < pi / 2 \<and>
   \<bar>altitude (run_events initial_state evs)\<bar> \<le> bound \<and>
   altitude (update cursor True right s) =
     clamp (altitude s + (snd cursor - snd (mouse_pos s)) * 0.01) (- bound) bound \<and>
   (bound < altitude s + (snd cursor - snd (mouse_pos s)) * 0.01 \<longrightarrow>
      altitude (update cursor True right s) = bound) \<and>
   (altitude s + (snd cursor - snd (mouse_pos s)) * 0.01 < - bound \<longrightarrow>
      altitude (update cursor True right s) = - bound)"
proof -
  have "\<bar>altitude initial_state\<bar> \<le> bound"
    using bound_pos by (simp add: initial_state_def)
  then have inv: "\<bar>altitude (run_events initial_state evs)\<bar> \<le> bound"
    by (rule altitude_run)
  with bound_less have
    "- (pi / 2) < altitude (run_events initial_state evs)"
    "altitude (run_events initial_state evs) < pi / 2"
    by (simp_all add: abs_le_iff)
  moreover have "bound < v \<Longrightarrow> clamp v (- bound) bound = bound" for v
    using bound_pos by (simp add: clamp_def)
  moreover have "v < - bound \<Longrightarrow> clamp v (- bound) bound = - bound" for v
    by (simp add: clamp_def)
  ultimately show ?thesis
    using inv by (simp add: altitude_update bound_def)
qed

text \<open>Witness for C4: the first frame of the specification's third scenario, a left drag
  by \<open>dy = 1000\<close> pixels from the initial state, pins the altitude at the bound.\<close>

theorem altitude_stays_inside_poles_witness:
  "bound < altitude initial_state + (snd (0 :: real, 1000 :: real) - snd (mouse_pos initial_state)) * 0.01 \<and>
   altitude (update (0, 1000) True False initial_state) = bound \<and>
   altitude (run_events initial_state [Frame (0, 1000) True False, Frame (0, 2000) True False])
     < pi / 2"
proof -
  have h: "bound < altitude initial_state + (snd (0 :: real, 1000 :: real) - snd (mouse_pos initial_state)) * 0.01"
    using pi_less_4 by (simp add: bound_def initial_state_def)
  from altitude_stays_inside_poles
         [of "[Frame (0, 1000) True False, Frame (0, 2000) True False]" "(0, 1000)" False
            initial_state] h
  show ?thesis by blast
qed

subsection \<open>Radius\<close>












subsection \<open>Pan\<close>















subsection \<open>Projection\<close>

lemma sum_lessThan_8:
  "(\<Sum>m<8. f m) = f 0 + f 1 + f 2 + f 3 + f 4 + f 5 + f 6 + (f (7::nat) :: real)"
  by (simp add: eval_nat_numeral)

lemma sum_lessThan_6:
  "(\<Sum>m<6. f m) = f 0 + f 1 + f 2 + f 3 + f 4 + (f (5::nat) :: real)"
  by (simp add: eval_nat_numeral)

lemma cos_coeff_values:
  "cos_coeff (Suc 0) = 0" "cos_coeff 2 = - 1 / 2" "cos_coeff 3 = 0"
  "cos_coeff 4 = 1 / 24" "cos_coeff 5 = 0" "cos_coeff 6 = - 1 / 720" "cos_coeff 7 = 0"
  by (simp_all add: cos_coeff_def fact_numeral)

lemma cos_upper:
  fixes x :: real
  assumes "0 < x"
  shows "cos x \<le> 1 - x^2 / 2 + x^4 / 24 - x^6 / 720 + x^8 / 40320"
proof -
  obtain t where t: "cos x = (\<Sum>m<8. cos_coeff m * x ^ m) +
      (cos (t + 1/2 * real (8::nat) * pi) / fact 8) * x ^ 8"
    using Maclaurin_cos_expansion2 [OF assms, of 8] by auto
  have s: "(\<Sum>m<8. cos_coeff m * x ^ m) = 1 - x^2 / 2 + x^4 / 24 - x^6 / 720"
    by (simp add: sum_lessThan_8 cos_coeff_values)
  have "cos (t + 1/2 * real (8::nat) * pi) \<le> 1" by (rule cos_le_one)
  then have "(cos (t + 1/2 * real (8::nat) * pi) / fact 8) * x ^ 8 \<le> (1 / fact 8) * x ^ 8"
    by (intro mult_right_mono divide_right_mono) simp_all
  also have "\<dots> = x^8 / 40320" by (simp add: fact_numeral)
  finally show ?thesis using t s by linarith
qed

lemma cos_lower:
  fixes x :: real
  assumes "0 < x"
  shows "1 - x^2 / 2 + x^4 / 24 - x^6 / 720 \<le> cos x"
proof -
  obtain t where t: "cos x = (\<Sum>m<6. cos_coeff m * x ^ m) +
      (cos (t + 1/2 * real (6::nat) * pi) / fact 6) * x ^ 6"
    using Maclaurin_cos_expansion2 [OF assms, of 6] by auto
  have s: "(\<Sum>m<6. cos_coeff m * x ^ m) = 1 - x^2 / 2 + x^4 / 24"
    by (simp add: sum_lessThan_6 cos_coeff_values)
  have "- 1 \<le> cos (t + 1/2 * real (6::nat) * pi)" by (rule cos_ge_minus_one)
  then have "(- 1 / fact 6) * x ^ 6 \<le> (cos (t + 1/2 * real (6::nat) * pi) / fact 6) * x ^ 6"
    by (intro mult_right_mono divide_right_mono) simp_all
  moreover have "(- 1 / fact 6) * x ^ 6 = - (x^6 / 720)" by (simp add: fact_numeral)
  ultimately show ?thesis using t s by linarith
qed

lemma pi_greater_3: "3 < pi"
proof -
  have pos: "0 < cos (3 / 2 :: real)"
    using cos_lower [of "3 / 2"] by (simp add: power_divide)
  show ?thesis
  proof (rule ccontr)
    assume "\<not> 3 < pi"
    then have "pi / 2 \<le> 3 / 2" by simp
    moreover have "(3 / 2 :: real) \<le> pi" using pi_ge_two by simp
    ultimately have "cos (3 / 2) \<le> cos (pi / 2)"
      by (intro cos_monotone_0_pi_le) simp_all
    with pos show False by simp
  qed
qed

lemma pi_less_315: "pi < 63 / 20"
proof -
  have neg: "cos (63 / 40 :: real) < 0"
    using cos_upper [of "63 / 40"] by (simp add: power_divide)
  show ?thesis
  proof (rule ccontr)
    assume "\<not> pi < 63 / 20"
    then have "(63 / 40 :: real) \<le> pi / 2" by simp
    then have "0 \<le> cos (63 / 40 :: real)"
      by (intro cos_ge_zero) simp_all
    with neg show False by simp
  qed
qed

lemma tan_of_45_radians_half: "tan (45 / 2 :: real) \<noteq> tan (pi / 8)"
proof -
  have "tan (45 / 2 - 7 * pi + 7 * pi) = tan (45 / 2 - 7 * pi :: real)"
    by (rule tan_periodic_n)
  then have eq: "tan (45 / 2 :: real) = tan (45 / 2 - 7 * pi)" by simp
  have "pi / 8 < 45 / 2 - 7 * pi" using pi_less_315 by simp
  moreover have "45 / 2 - 7 * pi < pi / 2" using pi_greater_3 by simp
  moreover have "- (pi / 2) < pi / 8" using pi_gt_zero by linarith
  ultimately have "tan (pi / 8) < tan (45 / 2 - 7 * pi)"
    by (intro tan_monotone)
  with eq show ?thesis by simp
qed

lemma fov_handle: "fov (handle s ev) = fov s"
  by (cases ev) (simp_all add: scroll_callback_def resize_def update_def Let_def)

lemma fov_run: "fov (run_events s evs) = fov s"
  unfolding run_events_def
  by (induction evs arbitrary: s) (simp_all add: fov_handle)

text \<open>
  Claim C8. The projection built on a resize should be the perspective matrix for a
  vertical field of view of 45 degrees. \<open>resize\<close> hands \<open>fov = 45\<close> to
  \<open>glm::perspective\<close>, which reads it as radians: after any events and a resize to a
  viewport of positive height the matrix is \<open>perspective 45 \<dots>\<close>, whose entry \<open>[1][1]\<close>
  is \<open>1 / tan (45 / 2)\<close>, and it is not the matrix for 45 degrees,
  \<open>perspective (45 * \<pi> / 180) \<dots>\<close>, which \<open>update\<close>'s \<open>pixel_size\<close> assumes.
\<close>

theorem resize_projection_takes_degrees_for_radians:
  assumes "0 < h"
  shows
  "projection (resize w h (run_events initial_state evs)) =
     perspective 45 (real_of_int w / real_of_int h) 0.1 10000 \<and>
   wy (col1 (projection (resize w h (run_events initial_state evs)))) = 1 / tan (45 / 2) \<and>
   wy (col1 (perspective (45 * pi / 180) (real_of_int w / real_of_int h) 0.1 10000))
     = 1 / tan (pi / 8) \<and>
   projection (resize w h (run_events initial_state evs)) \<noteq>
     perspective (45 * pi / 180) (real_of_int w / real_of_int h) 0.1 10000 \<and>
   pixel_size (resize w h (run_events initial_state evs)) = 2 * tan (pi / 8) / real_of_int h"
proof -
  have f: "fov (run_events initial_state evs) = 45"
    by (simp add: fov_run initial_state_def)
  have p: "projection (resize w h (run_events initial_state evs)) =
             perspective 45 (real_of_int w / real_of_int h) 0.1 10000"
    by (simp add: resize_def f)
  have a: "wy (col1 (perspective 45 (real_of_int w / real_of_int h) 0.1 10000)) = 1 / tan (45 / 2)"
    by (simp add: perspective_def Let_def)
  have b: "wy (col1 (perspective (45 * pi / 180) (real_of_int w / real_of_int h) 0.1 10000))
             = 1 / tan (pi / 8)"
    by (simp add: perspective_def Let_def)
  have "1 / tan (45 / 2 :: real) \<noteq> 1 / tan (pi / 8)"
    using tan_of_45_radians_half by simp
  with a b have ne: "perspective 45 (real_of_int w / real_of_int h) 0.1 10000 \<noteq>
      perspective (45 * pi / 180) (real_of_int w / real_of_int h) 0.1 10000"
    by metis
  have px: "pixel_size (resize w h (run_events initial_state evs)) = 2 * tan (pi / 8) / real_of_int h"
    by (simp add: pixel_size_def resize_def f)
  from p a b ne px show ?thesis by simp
qed

text \<open>Witness for C8: the first resize, to the initial 500 by 500 framebuffer.\<close>

theorem resize_projection_takes_degrees_for_radians_witness:
  "(0 :: int) < 500 \<and>
   projection (resize 500 500 initial_state) =
     perspective 45 (real_of_int 500 / real_of_int 500) 0.1 10000 \<and>
   projection (resize 500 500 initial_state) \<noteq>
     perspective (45 * pi / 180) (real_of_int 500 / real_of_int 500) 0.1 10000"
proof -
  have h: "(0 :: int) < 500" by simp
  have e: "run_events initial_state [] = initial_state" by (simp add: run_events_def)
  from resize_projection_takes_degrees_for_radians [OF h, of 500 "[]"] h
  show ?thesis unfolding e by blast
qed

end
